theory Spec2Isabelle
  imports Main
begin

section \<open>JavaScript values\<close>

text \<open>
  The fetch helpers of \<^verbatim>\<open>src/lib/r2.ts\<close> hand the result of \<^verbatim>\<open>response.json()\<close> on
  without decoding it into a typed record: the TypeScript annotations \<^verbatim>\<open>Blog\<close> and
  \<^verbatim>\<open>Category\<close> are erased at run time. A fetched document is therefore an arbitrary
  JSON value, and reading a field of it may give \<^verbatim>\<open>undefined\<close>. Numbers are the
  integers, printed in plain decimal; a decoded object is the list of its members.
\<close>

datatype jsval =
    JUndefined
  | JNull
  | JBool bool
  | JNum int
  | JStr string
  | JArr "jsval list"
  | JObj "(string \<times> jsval) list"

text \<open>
  What the code can throw. The three \<^verbatim>\<open>new Error(...)\<close> sites of \<^verbatim>\<open>r2.ts\<close> are told
  apart by their message: the missing environment variable, a response that is not
  \<^verbatim>\<open>ok\<close> (with the text naming what was fetched, the status and the status text), and
  the unexpected index format. The others are raised by the platform: \<^verbatim>\<open>fetch\<close>
  rejecting, \<^verbatim>\<open>response.json()\<close> rejecting on a body that is not JSON, and a property
  read or method call on a value that does not support it.
\<close>

datatype error =
    ConfigurationError
  | FetchError string nat string
  | FormatError
  | NetworkError
  | SyntaxError
  | TypeError

fun then_res :: "error + 'a \<Rightarrow> ('a \<Rightarrow> error + 'b) \<Rightarrow> error + 'b" where
  "then_res (Inl e) f = Inl e"
| "then_res (Inr x) f = f x"

text \<open>Truthiness, as \<^verbatim>\<open>!x\<close> and \<^verbatim>\<open>x && y\<close> test it.\<close>

fun truthy :: "jsval \<Rightarrow> bool" where
  "truthy JUndefined = False"
| "truthy JNull = False"
| "truthy (JBool b) = b"
| "truthy (JNum n) = (n \<noteq> 0)"
| "truthy (JStr s) = (s \<noteq> [])"
| "truthy (JArr xs) = True"
| "truthy (JObj kvs) = True"

fun isArray :: "jsval \<Rightarrow> bool" where
  "isArray (JArr xs) = True"
| "isArray v = False"

text \<open>
  The property read \<^verbatim>\<open>v.k\<close>, for the keys the code reads (\<^verbatim>\<open>items\<close>, \<^verbatim>\<open>slug\<close>,
  \<^verbatim>\<open>name\<close>, \<^verbatim>\<open>summary\<close>, \<^verbatim>\<open>body\<close>), none of which is inherited from a prototype: it
  throws on \<^verbatim>\<open>null\<close> and \<^verbatim>\<open>undefined\<close>, finds the member of an object, and is
  \<^verbatim>\<open>undefined\<close> everywhere else.
\<close>

fun get_prop :: "jsval \<Rightarrow> string \<Rightarrow> error + jsval" where
  "get_prop JUndefined k = Inl TypeError"
| "get_prop JNull k = Inl TypeError"
| "get_prop (JObj kvs) k = Inr (case map_of kvs k of None \<Rightarrow> JUndefined | Some v \<Rightarrow> v)"
| "get_prop v k = Inr JUndefined"

text \<open>Decimal digits of a number, for template literals.\<close>

fun show_nat :: "nat \<Rightarrow> string" where
  "show_nat n =
     (if n < 10 then [char_of (48 + n)]
      else show_nat (n div 10) @ [char_of (48 + n mod 10)])"

declare show_nat.simps [simp del]

definition show_int :: "int \<Rightarrow> string" where
  "show_int i = (if i < 0 then CHR ''-'' # show_nat (nat (- i)) else show_nat (nat i))"

fun join_with :: "string \<Rightarrow> string list \<Rightarrow> string" where
  "join_with sep [] = []"
| "join_with sep [s] = s"
| "join_with sep (s # t # ss) = s @ sep @ join_with sep (t # ss)"

text \<open>
  The string a template literal \<^verbatim>\<open>${v}\<close> inserts for a value. An array is its
  elements joined by commas, with \<^verbatim>\<open>null\<close> and \<^verbatim>\<open>undefined\<close> elements empty.
\<close>

fun to_string :: "jsval \<Rightarrow> string" where
  "to_string JUndefined = ''undefined''"
| "to_string JNull = ''null''"
| "to_string (JBool b) = (if b then ''true'' else ''false'')"
| "to_string (JNum n) = show_int n"
| "to_string (JStr s) = s"
| "to_string (JArr xs) =
     join_with '',''
       (map (\<lambda>x. if x = JUndefined \<or> x = JNull then [] else to_string x) xs)"
| "to_string (JObj kvs) = ''[object Object]''"

section \<open>Environment and network\<close>

text \<open>
  \<^verbatim>\<open>import.meta.env\<close>: the content source \<^verbatim>\<open>PUBLIC_R2_BASE_URL\<close> may be unset; the
  deployment prefix \<^verbatim>\<open>BASE_URL\<close> is always a string.
\<close>

record env =
  PUBLIC_R2_BASE_URL :: "string option"
  BASE_URL :: string

text \<open>
  A response carries its status, its status text and what \<^verbatim>\<open>response.json()\<close> gives:
  the decoded value, or nothing when the body is not JSON. \<^verbatim>\<open>response.ok\<close> is the
  status lying in the success range.
\<close>

record response =
  status :: nat
  statusText :: string
  json :: "jsval option"

definition ok :: "response \<Rightarrow> bool" where
  "ok r = (200 \<le> status r \<and> status r \<le> 299)"

text \<open>
  The upstream store during one build: the response to a GET of each address, or none
  when the request itself fails. The only effect of the helpers that the properties
  below speak about is which requests were issued, so the state threaded through them
  is the list of requested addresses, oldest first. The \<^verbatim>\<open>catch\<close> blocks only log the
  error and throw it again, which leaves the outcome as it is.
\<close>

type_synonym net = "string \<Rightarrow> response option"
type_synonym world = "string list"

definition fetch :: "net \<Rightarrow> string \<Rightarrow> world \<Rightarrow> (error + response) \<times> world" where
  "fetch nw url w =
     ((case nw url of None \<Rightarrow> Inl NetworkError | Some r \<Rightarrow> Inr r), w @ [url])"

section \<open>The fetch helpers of r2.ts\<close>

text \<open>\<^verbatim>\<open>baseUrl.replace(/\/$/, '')\<close>: one slash at the very end of the string is dropped.\<close>

definition strip_trailing_slash :: "string \<Rightarrow> string" where
  "strip_trailing_slash s =
     (if s \<noteq> [] \<and> last s = CHR ''/'' then butlast s else s)"

definition getR2BaseUrl :: "env \<Rightarrow> error + string" where
  "getR2BaseUrl ev =
     (case PUBLIC_R2_BASE_URL ev of
        None \<Rightarrow> Inl ConfigurationError
      | Some baseUrl \<Rightarrow>
          if baseUrl = [] then Inl ConfigurationError
          else Inr (strip_trailing_slash baseUrl))"

definition getR2Url :: "env \<Rightarrow> string \<Rightarrow> error + string" where
  "getR2Url ev path =
     then_res (getR2BaseUrl ev) (\<lambda>baseUrl. Inr (baseUrl @ ''/'' @ path))"

text \<open>
  The body of the \<^verbatim>\<open>try\<close> block that the four single-document helpers share: issue
  the request, throw unless the response is \<^verbatim>\<open>ok\<close>, decode the body. \<open>what\<close> is the
  text the message names the document by.
\<close>

definition fetch_json :: "string \<Rightarrow> net \<Rightarrow> string \<Rightarrow> world \<Rightarrow> (error + jsval) \<times> world" where
  "fetch_json what nw url w =
     (case fetch nw url w of
        (Inl e, w') \<Rightarrow> (Inl e, w')
      | (Inr r, w') \<Rightarrow>
          if \<not> ok r then (Inl (FetchError what (status r) (statusText r)), w')
          else (case json r of
                  None \<Rightarrow> (Inl SyntaxError, w')
                | Some data \<Rightarrow> (Inr data, w')))"

text \<open>
  \<^verbatim>\<open>if (data && data.items && Array.isArray(data.items)) return data.items\<close>, and the
  format error otherwise.
\<close>

definition index_items :: "jsval \<Rightarrow> error + jsval list" where
  "index_items data =
     (if \<not> truthy data then Inl FormatError
      else then_res (get_prop data ''items'')
        (\<lambda>items.
           if truthy items \<and> isArray items
           then (case items of JArr blogs \<Rightarrow> Inr blogs | _ \<Rightarrow> Inl FormatError)
           else Inl FormatError))"

definition fetchAllBlogs :: "env \<Rightarrow> net \<Rightarrow> world \<Rightarrow> (error + jsval list) \<times> world" where
  "fetchAllBlogs ev nw w =
     (case getR2Url ev ''blogs/_index.json'' of
        Inl e \<Rightarrow> (Inl e, w)
      | Inr url \<Rightarrow>
          (case fetch_json ''blog index'' nw url w of
             (Inl e, w') \<Rightarrow> (Inl e, w')
           | (Inr data, w') \<Rightarrow> (index_items data, w')))"

definition fetchBlog :: "env \<Rightarrow> net \<Rightarrow> jsval \<Rightarrow> world \<Rightarrow> (error + jsval) \<times> world" where
  "fetchBlog ev nw slug w =
     (case getR2Url ev (''blogs/'' @ to_string slug @ ''.json'') of
        Inl e \<Rightarrow> (Inl e, w)
      | Inr url \<Rightarrow>
          fetch_json (''blog '' @ [CHR 0x22] @ to_string slug @ [CHR 0x22]) nw url w)"

definition fetchCategoryIndex :: "env \<Rightarrow> net \<Rightarrow> world \<Rightarrow> (error + jsval) \<times> world" where
  "fetchCategoryIndex ev nw w =
     (case getR2Url ev ''categories/_index.json'' of
        Inl e \<Rightarrow> (Inl e, w)
      | Inr url \<Rightarrow> fetch_json ''category index'' nw url w)"

definition fetchCategory :: "env \<Rightarrow> net \<Rightarrow> jsval \<Rightarrow> world \<Rightarrow> (error + jsval) \<times> world" where
  "fetchCategory ev nw slug w =
     (case getR2Url ev (''categories/'' @ to_string slug @ ''.json'') of
        Inl e \<Rightarrow> (Inl e, w)
      | Inr url \<Rightarrow>
          fetch_json (''category '' @ [CHR 0x22] @ to_string slug @ [CHR 0x22]) nw url w)"

text \<open>
  \<^verbatim>\<open>Promise.all(xs.map(f))\<close> for an asynchronous \<open>f\<close>. The call of \<open>map\<close> starts
  every \<open>f x\<close> in the order of \<open>xs\<close>, each running up to its request whether or not an
  earlier one will fail, so \<open>fan_out\<close> threads the request log through all of them
  and keeps every outcome. \<open>promise_all\<close> then fulfils with the values in the order
  of \<open>xs\<close> when every member fulfilled, and rejects otherwise. Which rejection it
  reports depends on the order of arrival; the model reports the first in the order
  of \<open>xs\<close>, and nothing below depends on that choice.
\<close>

fun fan_out :: "('a \<Rightarrow> world \<Rightarrow> (error + 'b) \<times> world) \<Rightarrow> 'a list \<Rightarrow> world
    \<Rightarrow> (error + 'b) list \<times> world" where
  "fan_out f [] w = ([], w)"
| "fan_out f (x # xs) w =
     (case f x w of (r, w') \<Rightarrow>
        (case fan_out f xs w' of (rs, w'') \<Rightarrow> (r # rs, w'')))"

fun promise_all :: "(error + 'b) list \<Rightarrow> error + 'b list" where
  "promise_all [] = Inr []"
| "promise_all (Inl e # rs) = Inl e"
| "promise_all (Inr v # rs) =
     (case promise_all rs of Inl e \<Rightarrow> Inl e | Inr vs \<Rightarrow> Inr (v # vs))"

text \<open>
  \<^verbatim>\<open>slugs.map(...)\<close> is a method call on whatever the category index decoded to: it
  throws unless that is an array.
\<close>

definition fetchAllCategories :: "env \<Rightarrow> net \<Rightarrow> world \<Rightarrow> (error + jsval list) \<times> world" where
  "fetchAllCategories ev nw w =
     (case fetchCategoryIndex ev nw w of
        (Inl e, w') \<Rightarrow> (Inl e, w')
      | (Inr slugs, w') \<Rightarrow>
          (case slugs of
             JArr ss \<Rightarrow>
               (case fan_out (fetchCategory ev nw) ss w' of
                  (rs, w'') \<Rightarrow> (promise_all rs, w''))
           | _ \<Rightarrow> (Inl TypeError, w')))"

section \<open>The pages\<close>

text \<open>
  A rendered template, before serialisation: elements with their attributes, literal
  text, the value of an interpolation \<^verbatim>\<open>{expr}\<close>, and the value a \<^verbatim>\<open>set:html\<close>
  directive inserts as markup. Whitespace between elements is left out.
\<close>

datatype html =
    Element string "(string \<times> string) list" "html list"
  | Text string
  | Expr jsval
  | RawHtml jsval

text \<open>A synchronous \<^verbatim>\<open>xs.map(f)\<close> whose callback may throw: the first throw ends it.\<close>

fun map_res :: "('a \<Rightarrow> error + 'b) \<Rightarrow> 'a list \<Rightarrow> error + 'b list" where
  "map_res f [] = Inr []"
| "map_res f (x # xs) =
     then_res (f x) (\<lambda>y. then_res (map_res f xs) (\<lambda>ys. Inr (y # ys)))"

definition head_of_page :: "html list \<Rightarrow> html" where
  "head_of_page title =
     Element ''head'' []
       [Element ''meta'' [(''charset'', ''UTF-8'')] [],
        Element ''meta''
          [(''name'', ''viewport''),
           (''content'', ''width=device-width, initial-scale=1.0'')] [],
        Element ''title'' [] title]"

subsection \<open>src/pages/index.astro\<close>

definition rightwards_arrow :: string where
  "rightwards_arrow = [CHR 0xE2, CHR 0x86, CHR 0x92]"

definition leftwards_arrow :: string where
  "leftwards_arrow = [CHR 0xE2, CHR 0x86, CHR 0x90]"

text \<open>The \<^verbatim>\<open>article\<close> that the callback of \<^verbatim>\<open>blogs.map\<close> builds for one entry.\<close>

definition blog_card :: "string \<Rightarrow> jsval \<Rightarrow> error + html" where
  "blog_card base blog =
     then_res (get_prop blog ''slug'') (\<lambda>slug.
     then_res (get_prop blog ''name'') (\<lambda>name.
     then_res (get_prop blog ''summary'') (\<lambda>summary.
       Inr (Element ''article'' [(''class'', ''blog-card'')]
         [Element ''h2'' []
            [Element ''a'' [(''href'', base @ ''/blog/'' @ to_string slug)] [Expr name]],
          Element ''p'' [(''class'', ''summary'')] [Expr summary],
          Element ''a''
            [(''href'', base @ ''/blog/'' @ to_string slug), (''class'', ''read-more'')]
            [Text (''Read more '' @ rightwards_arrow)]]))))"

definition no_posts :: html where
  "no_posts = Element ''p'' [] [Text ''No blog posts found.'']"

definition listing_document :: "html list \<Rightarrow> bool \<Rightarrow> html" where
  "listing_document cards none =
     Element ''html'' [(''lang'', ''en'')]
       [head_of_page [Text ''Blog''],
        Element ''body'' []
          [Element ''header'' []
             [Element ''div'' [(''class'', ''container'')]
                [Element ''h1'' [] [Text ''Blog'']]],
           Element ''main'' [(''class'', ''container'')]
             (Element ''div'' [(''class'', ''blog-grid'')] cards
              # (if none then [no_posts] else []))]]"

definition index_astro :: "env \<Rightarrow> net \<Rightarrow> world \<Rightarrow> (error + html) \<times> world" where
  "index_astro ev nw w =
     (case fetchAllBlogs ev nw w of
        (Inl e, w') \<Rightarrow> (Inl e, w')
      | (Inr blogs, w') \<Rightarrow>
          (then_res (map_res (blog_card (BASE_URL ev)) blogs)
             (\<lambda>cards. Inr (listing_document cards (blogs = []))), w'))"

subsection \<open>src/pages/blog/[slug].astro\<close>

record static_path =
  params_slug :: jsval
  props_blog :: jsval

text \<open>The callback of \<^verbatim>\<open>blogIndex.map\<close> in \<^verbatim>\<open>getStaticPaths\<close>.\<close>

definition path_entry :: "env \<Rightarrow> net \<Rightarrow> jsval \<Rightarrow> world \<Rightarrow> (error + static_path) \<times> world" where
  "path_entry ev nw indexEntry w =
     (case get_prop indexEntry ''slug'' of
        Inl e \<Rightarrow> (Inl e, w)
      | Inr slug \<Rightarrow>
          (case fetchBlog ev nw slug w of
             (Inl e, w') \<Rightarrow> (Inl e, w')
           | (Inr fullBlog, w') \<Rightarrow>
               (Inr \<lparr>params_slug = slug, props_blog = fullBlog\<rparr>, w')))"

definition getStaticPaths :: "env \<Rightarrow> net \<Rightarrow> world \<Rightarrow> (error + static_path list) \<times> world" where
  "getStaticPaths ev nw w =
     (case fetchAllBlogs ev nw w of
        (Inl e, w') \<Rightarrow> (Inl e, w')
      | (Inr blogIndex, w') \<Rightarrow>
          (case fan_out (path_entry ev nw) blogIndex w' of
             (rs, w'') \<Rightarrow> (promise_all rs, w'')))"

text \<open>The template of the detail page, rendered from the \<^verbatim>\<open>blog\<close> of its props.\<close>

definition blog_slug_astro :: "env \<Rightarrow> static_path \<Rightarrow> error + html" where
  "blog_slug_astro ev p =
     then_res (get_prop (props_blog p) ''name'') (\<lambda>name.
     then_res (get_prop (props_blog p) ''body'') (\<lambda>body.
       Inr (Element ''html'' [(''lang'', ''en'')]
         [head_of_page [Expr name, Text '' - Blog''],
          Element ''body'' []
            [Element ''header'' []
               [Element ''div'' [(''class'', ''container'')]
                  [Element ''h1'' [] [Element ''a'' [(''href'', BASE_URL ev)] [Text ''Blog'']]]],
             Element ''main'' [(''class'', ''container'')]
               [Element ''article'' [(''class'', ''blog-detail'')]
                  [Element ''a'' [(''href'', BASE_URL ev), (''class'', ''back-link'')]
                     [Text (leftwards_arrow @ '' Back to all posts'')],
                   Element ''h1'' [] [Expr name],
                   Element ''div'' [(''class'', ''body'')] [RawHtml body]]]]])))"

subsection \<open>Reading a rendered page\<close>

fun subtrees :: "html \<Rightarrow> html list" where
  "subtrees (Element t as cs) = Element t as cs # concat (map subtrees cs)"
| "subtrees (Text s) = [Text s]"
| "subtrees (Expr v) = [Expr v]"
| "subtrees (RawHtml v) = [RawHtml v]"

fun tag :: "html \<Rightarrow> string" where
  "tag (Element t as cs) = t"
| "tag n = []"

fun attr :: "string \<Rightarrow> html \<Rightarrow> string option" where
  "attr a (Element t as cs) = map_of as a"
| "attr a n = None"

fun children :: "html \<Rightarrow> html list" where
  "children (Element t as cs) = cs"
| "children n = []"

text \<open>The elements of a class, and all links, in document order.\<close>

definition by_class :: "string \<Rightarrow> html \<Rightarrow> html list" where
  "by_class c page = filter (\<lambda>n. attr ''class'' n = Some c) (subtrees page)"

definition by_tag :: "string \<Rightarrow> html \<Rightarrow> html list" where
  "by_tag t page = filter (\<lambda>n. tag n = t) (subtrees page)"

definition hrefs :: "html \<Rightarrow> string list" where
  "hrefs page = concat (map (\<lambda>n. case attr ''href'' n of None \<Rightarrow> [] | Some h \<Rightarrow> [h])
                   (by_tag ''a'' page))"

subsection \<open>Addresses\<close>

text \<open>Whether a string contains two slashes in a row.\<close>

fun doubled_separator :: "string \<Rightarrow> bool" where
  "doubled_separator (a # b # s) =
     ((a = CHR ''/'' \<and> b = CHR ''/'') \<or> doubled_separator (b # s))"
| "doubled_separator s = False"

section \<open>An upstream store for the examples\<close>

text \<open>
  A store that holds the given documents: it answers a GET of a stored address with
  status 200 and the document, and any other address with status 404.
\<close>

definition ok_response :: "jsval \<Rightarrow> response" where
  "ok_response doc = \<lparr>status = 200, statusText = ''OK'', json = Some doc\<rparr>"

definition not_found :: response where
  "not_found = \<lparr>status = 404, statusText = ''Not Found'', json = None\<rparr>"

definition store :: "(string \<times> jsval) list \<Rightarrow> net" where
  "store docs url =
     (case map_of docs url of Some doc \<Rightarrow> Some (ok_response doc) | None \<Rightarrow> Some not_found)"

definition site :: env where
  "site = \<lparr>PUBLIC_R2_BASE_URL = Some ''https://cdn.test/c/'', BASE_URL = ''/site''\<rparr>"

definition summary_of :: "string \<Rightarrow> string \<Rightarrow> jsval" where
  "summary_of slug name =
     JObj [(''name'', JStr name), (''slug'', JStr slug), (''summary'', JStr ''About.'')]"

definition post :: "string \<Rightarrow> string \<Rightarrow> string \<Rightarrow> jsval" where
  "post slug name body =
     JObj [(''name'', JStr name), (''slug'', JStr slug), (''body'', JStr body),
           (''summary'', JStr ''About.'')]"

definition index_of :: "int \<Rightarrow> jsval list \<Rightarrow> jsval" where
  "index_of n blogs = JObj [(''total_items'', JNum n), (''items'', JArr blogs)]"

definition two_posts :: net where
  "two_posts = store
     [(''https://cdn.test/c/blogs/_index.json'',
         index_of 2 [summary_of ''a'' ''A'', summary_of ''b'' ''B'']),
      (''https://cdn.test/c/blogs/a.json'', post ''a'' ''A'' ''<p>x</p>''),
      (''https://cdn.test/c/blogs/b.json'', post ''b'' ''B'' ''<p>y</p>'')]"

section \<open>Configuration\<close>

lemma getR2Url_unset:
  "PUBLIC_R2_BASE_URL ev = None \<or> PUBLIC_R2_BASE_URL ev = Some [] \<Longrightarrow>
   getR2Url ev path = Inl ConfigurationError"
  by (auto simp: getR2Url_def getR2BaseUrl_def)

lemma getR2Url_set:
  "PUBLIC_R2_BASE_URL ev = Some b \<Longrightarrow> b \<noteq> [] \<Longrightarrow>
   getR2Url ev path = Inr (strip_trailing_slash b @ ''/'' @ path)"
  by (simp add: getR2Url_def getR2BaseUrl_def)

text \<open>
  C9. When \<^verbatim>\<open>PUBLIC_R2_BASE_URL\<close> is unset or the empty string, each of the five fetch
  operations, and with them the listing page and \<^verbatim>\<open>getStaticPaths\<close>, fails with the
  configuration error, and the list of issued requests is the one it started with: the
  failure comes before any request.
\<close>

theorem unset_base_fails_before_any_request:
  assumes "PUBLIC_R2_BASE_URL ev = None \<or> PUBLIC_R2_BASE_URL ev = Some []"
  shows "fetchAllBlogs ev nw w = (Inl ConfigurationError, w)
       \<and> fetchBlog ev nw slug w = (Inl ConfigurationError, w)
       \<and> fetchCategoryIndex ev nw w = (Inl ConfigurationError, w)
       \<and> fetchCategory ev nw slug w = (Inl ConfigurationError, w)
       \<and> fetchAllCategories ev nw w = (Inl ConfigurationError, w)
       \<and> index_astro ev nw w = (Inl ConfigurationError, w)
       \<and> getStaticPaths ev nw w = (Inl ConfigurationError, w)"
  using assms
  by (simp add: getR2Url_unset fetchAllBlogs_def fetchBlog_def fetchCategoryIndex_def
      fetchCategory_def fetchAllCategories_def index_astro_def getStaticPaths_def)

theorem unset_base_fails_before_any_request_witness:
  "fetchAllBlogs \<lparr>PUBLIC_R2_BASE_URL = Some [], BASE_URL = ''/site''\<rparr> (\<lambda>u. None) []
      = (Inl ConfigurationError, [])
   \<and> fetchBlog \<lparr>PUBLIC_R2_BASE_URL = Some [], BASE_URL = ''/site''\<rparr> (\<lambda>u. None) (JStr ''a'') []
      = (Inl ConfigurationError, [])
   \<and> fetchAllCategories \<lparr>PUBLIC_R2_BASE_URL = Some [], BASE_URL = ''/site''\<rparr> (\<lambda>u. None) []
      = (Inl ConfigurationError, [])
   \<and> getStaticPaths \<lparr>PUBLIC_R2_BASE_URL = Some [], BASE_URL = ''/site''\<rparr> (\<lambda>u. None) []
      = (Inl ConfigurationError, [])"
  using unset_base_fails_before_any_request
    [of "\<lparr>PUBLIC_R2_BASE_URL = Some [], BASE_URL = ''/site''\<rparr>" "\<lambda>u. None" "[]" "JStr ''a''"]
  by simp

section \<open>Building the request address\<close>

lemma doubled_separator_append:
  "doubled_separator (xs @ ys) \<longleftrightarrow>
     doubled_separator xs \<or> doubled_separator ys
     \<or> (xs \<noteq> [] \<and> ys \<noteq> [] \<and> last xs = CHR ''/'' \<and> hd ys = CHR ''/'')"
proof (induction xs rule: doubled_separator.induct)
  case (1 a b s)
  then show ?case by auto
next
  fix v :: char
  show "doubled_separator ([v] @ ys) \<longleftrightarrow>
     doubled_separator [v] \<or> doubled_separator ys
     \<or> ([v] \<noteq> [] \<and> ys \<noteq> [] \<and> last [v] = CHR ''/'' \<and> hd ys = CHR ''/'')"
    by (cases ys) auto
qed simp

lemma strip_trailing_slash_snoc: "strip_trailing_slash (b @ ''/'') = b"
  by (simp add: strip_trailing_slash_def)

lemma strip_trailing_slash_other:
  "c \<noteq> [] \<Longrightarrow> last c \<noteq> CHR ''/'' \<Longrightarrow> strip_trailing_slash c = c"
  by (simp add: strip_trailing_slash_def)

text \<open>
  C2, as the code has it. \<^verbatim>\<open>getR2BaseUrl\<close> drops one trailing slash: a base entered as
  \<open>b/\<close> resolves every path to \<open>b/path\<close>, whatever \<open>b\<close> is. When \<open>b\<close> is not empty and
  does not itself end in a slash, the base entered as \<open>b\<close> resolves to the same
  address, and the join adds no doubled slash: the address has one only where \<open>b\<close> has
  one, or the path has one or starts with a slash.
\<close>

theorem one_trailing_slash_is_stripped:
  assumes "PUBLIC_R2_BASE_URL ev = Some (b @ ''/'')"
  shows "getR2Url ev path = Inr (b @ ''/'' @ path)
       \<and> (b \<noteq> [] \<and> last b \<noteq> CHR ''/'' \<and> PUBLIC_R2_BASE_URL ev' = Some b \<longrightarrow>
            getR2Url ev' path = getR2Url ev path
            \<and> (doubled_separator (b @ ''/'' @ path) \<longleftrightarrow>
                 doubled_separator b \<or> doubled_separator (''/'' @ path)))"
proof -
  have "getR2Url ev path = Inr (b @ ''/'' @ path)"
    using assms getR2Url_set [of ev "b @ ''/''" path]
    by (simp add: strip_trailing_slash_snoc)
  moreover have "getR2Url ev' path = Inr (b @ ''/'' @ path)"
    if "b \<noteq> []" "last b \<noteq> CHR ''/''" "PUBLIC_R2_BASE_URL ev' = Some b"
    using that getR2Url_set [of ev' b path] by (simp add: strip_trailing_slash_other)
  moreover have "doubled_separator (b @ ''/'' @ path) \<longleftrightarrow>
      doubled_separator b \<or> doubled_separator (''/'' @ path)"
    if "b \<noteq> []" "last b \<noteq> CHR ''/''"
    using that doubled_separator_append [of b "''/'' @ path"] by simp
  ultimately show ?thesis by simp
qed

theorem one_trailing_slash_is_stripped_witness:
  "getR2Url site ''blogs/_index.json'' = Inr ''https://cdn.test/c/blogs/_index.json''
   \<and> getR2Url (site\<lparr>PUBLIC_R2_BASE_URL := Some ''https://cdn.test/c''\<rparr>) ''blogs/_index.json''
       = Inr ''https://cdn.test/c/blogs/_index.json''"
  using one_trailing_slash_is_stripped
    [of site "''https://cdn.test/c''" "''blogs/_index.json''"
        "site\<lparr>PUBLIC_R2_BASE_URL := Some ''https://cdn.test/c''\<rparr>"]
  by (simp add: site_def)

text \<open>
  A base entered with two trailing slashes keeps one of them: the address has a doubled
  slash at the join, and differs from the address of the same base with one slash less.
\<close>

theorem doubled_trailing_slash_counterexample:
  "getR2Url \<lparr>PUBLIC_R2_BASE_URL = Some ''cdn//'', BASE_URL = ''/site''\<rparr> ''blogs/a.json''
     = Inr ''cdn//blogs/a.json''
   \<and> doubled_separator ''cdn//blogs/a.json''
   \<and> getR2Url \<lparr>PUBLIC_R2_BASE_URL = Some ''cdn/'', BASE_URL = ''/site''\<rparr> ''blogs/a.json''
     = Inr ''cdn/blogs/a.json''"
  by (simp add: getR2Url_def getR2BaseUrl_def strip_trailing_slash_def)

section \<open>Single documents\<close>

lemma fetch_json_ok:
  "nw url = Some r \<Longrightarrow> ok r \<Longrightarrow> json r = Some doc \<Longrightarrow>
   fetch_json what nw url w = (Inr doc, w @ [url])"
  by (simp add: fetch_json_def fetch_def)

lemma fetch_json_not_ok:
  "nw url = Some r \<Longrightarrow> \<not> ok r \<Longrightarrow>
   fetch_json what nw url w = (Inl (FetchError what (status r) (statusText r)), w @ [url])"
  by (simp add: fetch_json_def fetch_def)

lemma fetch_json_no_format_error: "fst (fetch_json what nw url w) \<noteq> Inl FormatError"
  by (simp add: fetch_json_def fetch_def split: option.splits)

lemma index_items_iff:
  "index_items data =
     (case data of
        JObj kvs \<Rightarrow> (case map_of kvs ''items'' of Some (JArr blogs) \<Rightarrow> Inr blogs | _ \<Rightarrow> Inl FormatError)
      | _ \<Rightarrow> Inl FormatError)"
  by (cases data) (auto simp: index_items_def split: option.splits jsval.splits)

text \<open>
  C7. When the index request is answered with a success status and a body that decodes
  to \<open>data\<close>, \<^verbatim>\<open>fetchAllBlogs\<close> fails with the format error exactly when \<open>data\<close>
  is not an object whose \<^verbatim>\<open>items\<close> member is an array; otherwise it returns that array
  as it is. \<^verbatim>\<open>total_items\<close> is never read: any value of it is accepted.
\<close>

theorem index_format_checked:
  assumes "getR2Url ev ''blogs/_index.json'' = Inr url"
    and "nw url = Some r" and "ok r" and "json r = Some data"
  shows "(fst (fetchAllBlogs ev nw w) = Inl FormatError \<longleftrightarrow>
            \<not> (\<exists>kvs blogs. data = JObj kvs \<and> map_of kvs ''items'' = Some (JArr blogs)))
       \<and> (\<forall>kvs blogs. data = JObj kvs \<and> map_of kvs ''items'' = Some (JArr blogs) \<longrightarrow>
            fetchAllBlogs ev nw w = (Inr blogs, w @ [url]))
       \<and> (\<forall>n blogs. data = JObj [(''total_items'', n), (''items'', JArr blogs)] \<longrightarrow>
            fst (fetchAllBlogs ev nw w) = Inr blogs)"
proof -
  have "fetchAllBlogs ev nw w = (index_items data, w @ [url])"
    using assms by (simp add: fetchAllBlogs_def fetch_json_ok)
  then show ?thesis
    by (auto simp: index_items_iff split: jsval.splits option.splits)
qed

lemma ok_ok_response: "ok (ok_response doc)" "json (ok_response doc) = Some doc"
  by (simp_all add: ok_def ok_response_def)

theorem index_format_checked_witness:
  "fetchAllBlogs site
     (store [(''https://cdn.test/c/blogs/_index.json'', index_of 7 [summary_of ''a'' ''A''])]) []
     = (Inr [summary_of ''a'' ''A''], [''https://cdn.test/c/blogs/_index.json''])
   \<and> fst (fetchAllBlogs site
     (store [(''https://cdn.test/c/blogs/_index.json'', JArr [summary_of ''a'' ''A''])]) [])
     = Inl FormatError"
proof -
  have u: "getR2Url site ''blogs/_index.json'' = Inr ''https://cdn.test/c/blogs/_index.json''"
    by (simp add: getR2Url_def getR2BaseUrl_def strip_trailing_slash_def site_def)
  show ?thesis
    using index_format_checked [OF u, of
        "store [(''https://cdn.test/c/blogs/_index.json'', index_of 7 [summary_of ''a'' ''A''])]"
        "ok_response (index_of 7 [summary_of ''a'' ''A''])" "index_of 7 [summary_of ''a'' ''A'']" "[]"]
      index_format_checked [OF u, of
        "store [(''https://cdn.test/c/blogs/_index.json'', JArr [summary_of ''a'' ''A''])]"
        "ok_response (JArr [summary_of ''a'' ''A''])" "JArr [summary_of ''a'' ''A'']" "[]"]
    by (simp add: store_def ok_ok_response index_of_def)
qed

lemma fetchBlog_ok:
  assumes "getR2Url ev (''blogs/'' @ to_string slug @ ''.json'') = Inr url"
    and "nw url = Some r" and "ok r" and "json r = Some doc"
  shows "fetchBlog ev nw slug w = (Inr doc, w @ [url])"
  using assms by (simp add: fetchBlog_def fetch_json_ok)

lemma fetchBlog_no_format_error: "fst (fetchBlog ev nw slug w) \<noteq> Inl FormatError"
  by (cases "getR2Url ev (''blogs/'' @ to_string slug @ ''.json'')")
     (auto simp: fetchBlog_def fetch_json_no_format_error getR2Url_def getR2BaseUrl_def
           split: option.splits if_splits)

text \<open>
  What the detail page shows: the \<^verbatim>\<open>name\<close> of its record in the document title and in
  the heading of the article, the \<^verbatim>\<open>body\<close> as the markup of the article, and two links,
  both to the deployment prefix.
\<close>

lemma detail_page_parts:
  assumes "get_prop (props_blog p) ''name'' = Inr name"
    and "get_prop (props_blog p) ''body'' = Inr body"
  shows "\<exists>page. blog_slug_astro ev p = Inr page
       \<and> map children (by_tag ''title'' page) = [[Expr name, Text '' - Blog'']]
       \<and> map children (by_class ''blog-detail'' page)
           = [[Element ''a'' [(''href'', BASE_URL ev), (''class'', ''back-link'')]
                 [Text (leftwards_arrow @ '' Back to all posts'')],
               Element ''h1'' [] [Expr name],
               Element ''div'' [(''class'', ''body'')] [RawHtml body]]]
       \<and> map children (by_class ''body'' page) = [[RawHtml body]]
       \<and> hrefs page = [BASE_URL ev, BASE_URL ev]"
  using assms
  by (simp add: blog_slug_astro_def by_tag_def by_class_def hrefs_def head_of_page_def)

text \<open>
  C1, as the code has it. \<^verbatim>\<open>fetchBlog\<close> never fails with the format error. When its
  request is answered with a success status and a body that decodes to an object
  without a \<^verbatim>\<open>body\<close> member, it returns that object as it is, and the detail page
  rendered from it inserts \<^verbatim>\<open>undefined\<close> as its body.
\<close>

theorem fetchBlog_does_not_check_fields:
  "fst (fetchBlog ev nw slug w) \<noteq> Inl FormatError
   \<and> (getR2Url ev (''blogs/'' @ to_string slug @ ''.json'') = Inr url
        \<and> nw url = Some r \<and> ok r \<and> json r = Some (JObj kvs) \<and> map_of kvs ''body'' = None \<longrightarrow>
      fetchBlog ev nw slug w = (Inr (JObj kvs), w @ [url])
      \<and> (\<exists>page. blog_slug_astro ev \<lparr>params_slug = slug, props_blog = JObj kvs\<rparr> = Inr page
            \<and> map children (by_class ''body'' page) = [[RawHtml JUndefined]]))"
proof -
  have "\<exists>page. blog_slug_astro ev \<lparr>params_slug = slug, props_blog = JObj kvs\<rparr> = Inr page
            \<and> map children (by_class ''body'' page) = [[RawHtml JUndefined]]"
    if "map_of kvs ''body'' = None"
    using that
      detail_page_parts [of "\<lparr>params_slug = slug, props_blog = JObj kvs\<rparr>"
        "case map_of kvs ''name'' of None \<Rightarrow> JUndefined | Some v \<Rightarrow> v" JUndefined ev]
    by auto
  then show ?thesis
    using fetchBlog_no_format_error [of ev nw slug w] fetchBlog_ok [of ev slug url nw r "JObj kvs" w]
    by blast
qed

theorem fetchBlog_does_not_check_fields_witness:
  "fst (fetchBlog site (store [(''https://cdn.test/c/blogs/a.json'', summary_of ''a'' ''A'')])
          (JStr ''a'') []) \<noteq> Inl FormatError
   \<and> fetchBlog site (store [(''https://cdn.test/c/blogs/a.json'', summary_of ''a'' ''A'')])
          (JStr ''a'') []
       = (Inr (summary_of ''a'' ''A''), [''https://cdn.test/c/blogs/a.json''])"
  using fetchBlog_does_not_check_fields
    [of site "store [(''https://cdn.test/c/blogs/a.json'', summary_of ''a'' ''A'')]"
        "JStr ''a''" "[]" "''https://cdn.test/c/blogs/a.json''"
        "ok_response (summary_of ''a'' ''A'')"
        "[(''name'', JStr ''A''), (''slug'', JStr ''a''), (''summary'', JStr ''About.'')]"]
  by (simp add: store_def ok_ok_response summary_of_def getR2Url_def getR2BaseUrl_def
      strip_trailing_slash_def site_def)

text \<open>
  An item document without \<^verbatim>\<open>body\<close>: the fetch succeeds with the incomplete record,
  \<^verbatim>\<open>getStaticPaths\<close> returns the path entry of the item, and the template renders its
  page.
\<close>

theorem missing_body_counterexample:
  "fst (fetchBlog site
          (store [(''https://cdn.test/c/blogs/_index.json'', index_of 1 [summary_of ''a'' ''A'']),
                  (''https://cdn.test/c/blogs/a.json'', summary_of ''a'' ''A'')])
          (JStr ''a'') []) = Inr (summary_of ''a'' ''A'')
   \<and> get_prop (summary_of ''a'' ''A'') ''body'' = Inr JUndefined
   \<and> fst (getStaticPaths site
          (store [(''https://cdn.test/c/blogs/_index.json'', index_of 1 [summary_of ''a'' ''A'']),
                  (''https://cdn.test/c/blogs/a.json'', summary_of ''a'' ''A'')]) [])
       = Inr [\<lparr>params_slug = JStr ''a'', props_blog = summary_of ''a'' ''A''\<rparr>]
   \<and> map_sum id (by_class ''body'')
         (blog_slug_astro site \<lparr>params_slug = JStr ''a'', props_blog = summary_of ''a'' ''A''\<rparr>)
       = Inr [Element ''div'' [(''class'', ''body'')] [RawHtml JUndefined]]"
  by (simp add: getStaticPaths_def path_entry_def fetchAllBlogs_def
      fetchBlog_def fetch_json_def fetch_def index_items_def blog_slug_astro_def
      by_class_def head_of_page_def
      store_def ok_def ok_response_def summary_of_def index_of_def
      getR2Url_def getR2BaseUrl_def strip_trailing_slash_def site_def)

text \<open>
  C3, as the code has it. The record \<^verbatim>\<open>fetchBlog\<close> returns is the document stored at
  the address built from the requested slug, whatever its own \<^verbatim>\<open>slug\<close> member says; the
  slug a detail page is generated under is the one of the index entry, which is the one
  used for the request.
\<close>

theorem fetchBlog_returns_stored_document:
  assumes "getR2Url ev (''blogs/'' @ to_string slug @ ''.json'') = Inr url"
    and "nw url = Some r" and "ok r" and "json r = Some doc"
  shows "fetchBlog ev nw slug w = (Inr doc, w @ [url])
       \<and> (get_prop indexEntry ''slug'' = Inr slug \<longrightarrow>
            path_entry ev nw indexEntry w
              = (Inr \<lparr>params_slug = slug, props_blog = doc\<rparr>, w @ [url]))"
  using assms fetchBlog_ok [of ev slug url nw r doc w] by (simp add: path_entry_def)

theorem fetchBlog_returns_stored_document_witness:
  "fetchBlog site (store [(''https://cdn.test/c/blogs/a.json'', post ''a'' ''A'' ''<p>x</p>'')])
          (JStr ''a'') []
     = (Inr (post ''a'' ''A'' ''<p>x</p>''), [''https://cdn.test/c/blogs/a.json''])
   \<and> path_entry site (store [(''https://cdn.test/c/blogs/a.json'', post ''a'' ''A'' ''<p>x</p>'')])
          (summary_of ''a'' ''A'') []
     = (Inr \<lparr>params_slug = JStr ''a'', props_blog = post ''a'' ''A'' ''<p>x</p>''\<rparr>,
        [''https://cdn.test/c/blogs/a.json''])"
  using fetchBlog_returns_stored_document
    [of site "JStr ''a''" "''https://cdn.test/c/blogs/a.json''"
        "store [(''https://cdn.test/c/blogs/a.json'', post ''a'' ''A'' ''<p>x</p>'')]"
        "ok_response (post ''a'' ''A'' ''<p>x</p>'')" "post ''a'' ''A'' ''<p>x</p>''"
        "[]" "summary_of ''a'' ''A''"]
  by (simp add: store_def ok_ok_response summary_of_def getR2Url_def getR2BaseUrl_def
      strip_trailing_slash_def site_def)

text \<open>
  The document stored under the slug \<^verbatim>\<open>a\<close> names itself \<^verbatim>\<open>b\<close>: it is returned for the
  request of \<^verbatim>\<open>a\<close> all the same.
\<close>

theorem mismatched_slug_counterexample:
  "fst (fetchBlog site (store [(''https://cdn.test/c/blogs/a.json'', post ''b'' ''B'' ''<p>x</p>'')])
          (JStr ''a'') []) = Inr (post ''b'' ''B'' ''<p>x</p>'')
   \<and> get_prop (post ''b'' ''B'' ''<p>x</p>'') ''slug'' = Inr (JStr ''b'')
   \<and> JStr ''b'' \<noteq> JStr ''a''"
  by (simp add: fetchBlog_def fetch_json_def fetch_def store_def ok_def ok_response_def
      post_def getR2Url_def getR2BaseUrl_def strip_trailing_slash_def site_def)

section \<open>Fanning out\<close>

lemma fan_out_fst:
  assumes "\<And>x w. fst (f x w) = g x"
  shows "fst (fan_out f xs w) = map g xs"
proof (induction xs arbitrary: w)
  case Nil
  show ?case by simp
next
  case (Cons x xs)
  have "fst (f x w) = g x" by (rule assms)
  moreover have "fst (fan_out f xs (snd (f x w))) = map g xs" by (rule Cons.IH)
  ultimately show ?case by (simp add: split_beta)
qed

lemma promise_all_map_Inr: "promise_all (map Inr vs) = Inr vs"
  by (induction vs) simp_all

lemma promise_all_Inr_D: "promise_all rs = Inr vs \<Longrightarrow> rs = map Inr vs"
proof (induction rs arbitrary: vs)
  case Nil
  then show ?case by simp
next
  case (Cons r rs)
  show ?case
  proof (cases r)
    case (Inl e)
    with Cons.prems show ?thesis by simp
  next
    case (Inr v)
    show ?thesis
    proof (cases "promise_all rs")
      case (Inl e)
      with Inr Cons.prems show ?thesis by simp
    next
      case inner: (Inr ws)
      with Inr Cons.prems have "vs = v # ws" by simp
      moreover from inner have "rs = map Inr ws" by (rule Cons.IH)
      ultimately show ?thesis using Inr by simp
    qed
  qed
qed

lemma promise_all_Inr: "promise_all rs = Inr vs \<longleftrightarrow> rs = map Inr vs"
  using promise_all_Inr_D promise_all_map_Inr by blast

lemma promise_all_Inl: "(\<exists>e. promise_all rs = Inl e) \<longleftrightarrow> (\<exists>e. Inl e \<in> set rs)"
proof (induction rs)
  case Nil
  show ?case by simp
next
  case (Cons r rs)
  show ?case
  proof (cases r)
    case (Inl e)
    then show ?thesis by auto
  next
    case (Inr v)
    show ?thesis
    proof (cases "promise_all rs")
      case (Inl e)
      with Inr Cons.IH show ?thesis by auto
    next
      case inner: (Inr ws)
      with Inr Cons.IH show ?thesis by auto
    qed
  qed
qed



lemma fetchCategory_fst: "fst (fetchCategory ev nw s w) = fst (fetchCategory ev nw s [])"
  by (cases "getR2Url ev (''categories/'' @ to_string s @ ''.json'')")
     (simp_all add: fetchCategory_def fetch_json_def fetch_def split: option.splits)

lemma fetchBlog_fst: "fst (fetchBlog ev nw s w) = fst (fetchBlog ev nw s [])"
  by (cases "getR2Url ev (''blogs/'' @ to_string s @ ''.json'')")
     (simp_all add: fetchBlog_def fetch_json_def fetch_def split: option.splits)
lemma fetchAllCategories_array:
  assumes "fetchCategoryIndex ev nw w = (Inr (JArr slugs), w1)"
  shows "fst (fetchAllCategories ev nw w)
           = promise_all (map (\<lambda>s. fst (fetchCategory ev nw s [])) slugs)"
proof -
  have "fst (fan_out (fetchCategory ev nw) slugs w1)
          = map (\<lambda>s. fst (fetchCategory ev nw s [])) slugs"
    by (rule fan_out_fst) (rule fetchCategory_fst)
  then show ?thesis
    using assms by (simp add: fetchAllCategories_def split_beta)
qed

text \<open>
  C10. When the category index decodes to the array \<open>slugs\<close>, whatever
  \<^verbatim>\<open>fetchAllCategories\<close> returns has one category for each slug, in the order of the
  index: the category at each position is the one fetched for the slug at that
  position. It does return when every single fetch succeeds.
\<close>

theorem fetchAllCategories_keeps_order:
  assumes "fetchCategoryIndex ev nw w = (Inr (JArr slugs), w1)"
  shows "(\<forall>cats. fst (fetchAllCategories ev nw w) = Inr cats \<longrightarrow>
            length cats = length slugs
            \<and> map Inr cats = map (\<lambda>s. fst (fetchCategory ev nw s [])) slugs)
       \<and> ((\<forall>s\<in>set slugs. \<exists>c. fst (fetchCategory ev nw s []) = Inr c) \<longrightarrow>
            (\<exists>cats. fst (fetchAllCategories ev nw w) = Inr cats))"
proof -
  let ?g = "\<lambda>s. fst (fetchCategory ev nw s [])"
  have all: "fst (fetchAllCategories ev nw w) = promise_all (map ?g slugs)"
    using assms by (rule fetchAllCategories_array)
  have "length cats = length slugs \<and> map Inr cats = map ?g slugs"
    if "fst (fetchAllCategories ev nw w) = Inr cats" for cats
  proof -
    from that all have eq: "map ?g slugs = map Inr cats"
      by (simp add: promise_all_Inr)
    from eq have "length slugs = length cats"
      by (rule map_eq_imp_length_eq)
    with eq show ?thesis by simp
  qed
  moreover have "\<exists>cats. fst (fetchAllCategories ev nw w) = Inr cats"
    if ok: "\<forall>s\<in>set slugs. \<exists>c. ?g s = Inr c"
  proof (cases "promise_all (map ?g slugs)")
    case (Inl e)
    then have "\<exists>e. Inl e \<in> set (map ?g slugs)"
      using promise_all_Inl [of "map ?g slugs"] by blast
    with ok show ?thesis by auto
  next
    case (Inr cats)
    with all show ?thesis by simp
  qed
  ultimately show ?thesis by blast
qed

theorem fetchAllCategories_keeps_order_witness:
  "fst (fetchAllCategories site
     (store [(''https://cdn.test/c/categories/_index.json'', JArr [JStr ''news'', JStr ''art'']),
             (''https://cdn.test/c/categories/art.json'', JObj [(''name'', JStr ''Art''), (''slug'', JStr ''art'')]),
             (''https://cdn.test/c/categories/news.json'', JObj [(''name'', JStr ''News''), (''slug'', JStr ''news'')])])
     [])
   = Inr [JObj [(''name'', JStr ''News''), (''slug'', JStr ''news'')],
          JObj [(''name'', JStr ''Art''), (''slug'', JStr ''art'')]]"
proof -
  let ?nw = "store [(''https://cdn.test/c/categories/_index.json'', JArr [JStr ''news'', JStr ''art'']),
             (''https://cdn.test/c/categories/art.json'', JObj [(''name'', JStr ''Art''), (''slug'', JStr ''art'')]),
             (''https://cdn.test/c/categories/news.json'', JObj [(''name'', JStr ''News''), (''slug'', JStr ''news'')])]"
  have ix: "fetchCategoryIndex site ?nw []
      = (Inr (JArr [JStr ''news'', JStr ''art'']), [''https://cdn.test/c/categories/_index.json''])"
    by (simp add: fetchCategoryIndex_def fetch_json_def fetch_def store_def ok_def
        ok_response_def getR2Url_def getR2BaseUrl_def strip_trailing_slash_def site_def)
  have each: "fst (fetchCategory site ?nw (JStr ''news'') [])
        = Inr (JObj [(''name'', JStr ''News''), (''slug'', JStr ''news'')])"
      "fst (fetchCategory site ?nw (JStr ''art'') [])
        = Inr (JObj [(''name'', JStr ''Art''), (''slug'', JStr ''art'')])"
    by (simp_all add: fetchCategory_def fetch_json_def fetch_def store_def ok_def
        ok_response_def getR2Url_def getR2BaseUrl_def strip_trailing_slash_def site_def)
  from fetchAllCategories_keeps_order [OF ix] each
  obtain cats where c: "fst (fetchAllCategories site ?nw []) = Inr cats"
    by auto
  with fetchAllCategories_keeps_order [OF ix] each
  have "map Inr cats = [Inr (JObj [(''name'', JStr ''News''), (''slug'', JStr ''news'')]),
      Inr (JObj [(''name'', JStr ''Art''), (''slug'', JStr ''art'')]) :: error + jsval]"
    by simp
  then have "cats = [JObj [(''name'', JStr ''News''), (''slug'', JStr ''news'')],
          JObj [(''name'', JStr ''Art''), (''slug'', JStr ''art'')]]"
    by auto
  with c show ?thesis by simp
qed

section \<open>The detail pages\<close>

lemma path_entry_fst: "fst (path_entry ev nw b w) = fst (path_entry ev nw b [])"
proof (cases "get_prop b ''slug''")
  case (Inl e)
  then show ?thesis by (simp add: path_entry_def)
next
  case (Inr slug)
  have "fst (fetchBlog ev nw slug w) = fst (fetchBlog ev nw slug [])"
    by (rule fetchBlog_fst)
  with Inr show ?thesis
    by (cases "fetchBlog ev nw slug w"; cases "fetchBlog ev nw slug []")
       (auto simp: path_entry_def split: sum.splits)
qed

lemma path_entry_Inr:
  "fst (path_entry ev nw b []) = Inr p \<longleftrightarrow>
     get_prop b ''slug'' = Inr (params_slug p)
     \<and> fst (fetchBlog ev nw (params_slug p) []) = Inr (props_blog p)"
proof (cases "get_prop b ''slug''")
  case (Inl e)
  then show ?thesis by (simp add: path_entry_def)
next
  case (Inr slug)
  then show ?thesis
    by (cases "fetchBlog ev nw slug []"; cases p)
       (auto simp: path_entry_def split: sum.splits)
qed

lemma getStaticPaths_index:
  assumes "fetchAllBlogs ev nw w = (Inr index, w1)"
  shows "fst (getStaticPaths ev nw w)
           = promise_all (map (\<lambda>b. fst (path_entry ev nw b [])) index)"
proof -
  have "fst (fan_out (path_entry ev nw) index w1)
          = map (\<lambda>b. fst (path_entry ev nw b [])) index"
    by (rule fan_out_fst) (rule path_entry_fst)
  then show ?thesis
    using assms by (simp add: getStaticPaths_def split_beta)
qed

lemma paths_follow_index:
  "map (\<lambda>b. fst (path_entry ev nw b [])) index = map Inr paths \<Longrightarrow>
   map (\<lambda>p. Inr (params_slug p)) paths = map (\<lambda>b. get_prop b ''slug'') index
   \<and> (\<forall>p\<in>set paths. fst (fetchBlog ev nw (params_slug p) []) = Inr (props_blog p))"
proof (induction index arbitrary: paths)
  case Nil
  then show ?case by simp
next
  case (Cons b index)
  then obtain p ps where paths: "paths = p # ps" by (cases paths) auto
  with Cons.prems have hd: "fst (path_entry ev nw b []) = Inr p"
    and tl: "map (\<lambda>b. fst (path_entry ev nw b [])) index = map Inr ps"
    by simp_all
  from hd have "get_prop b ''slug'' = Inr (params_slug p)"
    and "fst (fetchBlog ev nw (params_slug p) []) = Inr (props_blog p)"
    by (simp_all add: path_entry_Inr)
  with Cons.IH [OF tl] paths show ?case by simp
qed

text \<open>
  C4. With the index fetched as \<open>index\<close>, whatever \<^verbatim>\<open>getStaticPaths\<close> returns has one
  entry for each entry of the index, in its order: the \<^verbatim>\<open>params.slug\<close> of each is the
  slug of the index entry at its position, and its \<^verbatim>\<open>props.blog\<close> is the record fetched
  for that slug. The page rendered from an entry shows the \<^verbatim>\<open>name\<close> of that record as
  title and heading and its \<^verbatim>\<open>body\<close> as the markup of the article. \<^verbatim>\<open>getStaticPaths\<close>
  does return when every entry has a slug whose record can be fetched.
\<close>

theorem one_detail_page_per_index_entry:
  assumes "fetchAllBlogs ev nw w = (Inr index, w1)"
  shows "(\<forall>paths. fst (getStaticPaths ev nw w) = Inr paths \<longrightarrow>
            length paths = length index
            \<and> map (\<lambda>p. Inr (params_slug p)) paths = map (\<lambda>b. get_prop b ''slug'') index
            \<and> (\<forall>p\<in>set paths.
                  fst (fetchBlog ev nw (params_slug p) []) = Inr (props_blog p)
                  \<and> (\<forall>name body.
                        get_prop (props_blog p) ''name'' = Inr name
                        \<and> get_prop (props_blog p) ''body'' = Inr body \<longrightarrow>
                        (\<exists>page. blog_slug_astro ev p = Inr page
                           \<and> map children (by_tag ''title'' page) = [[Expr name, Text '' - Blog'']]
                           \<and> map children (by_tag ''h1'' page)
                               = [[Element ''a'' [(''href'', BASE_URL ev)] [Text ''Blog'']],
                                  [Expr name]]
                           \<and> map children (by_class ''body'' page) = [[RawHtml body]]))))
       \<and> ((\<forall>b\<in>set index. \<exists>slug doc.
              get_prop b ''slug'' = Inr slug \<and> fst (fetchBlog ev nw slug []) = Inr doc) \<longrightarrow>
            (\<exists>paths. fst (getStaticPaths ev nw w) = Inr paths))"
proof -
  let ?g = "\<lambda>b. fst (path_entry ev nw b [])"
  have all: "fst (getStaticPaths ev nw w) = promise_all (map ?g index)"
    using assms by (rule getStaticPaths_index)
  have render: "\<exists>page. blog_slug_astro ev p = Inr page
         \<and> map children (by_tag ''title'' page) = [[Expr name, Text '' - Blog'']]
         \<and> map children (by_tag ''h1'' page)
             = [[Element ''a'' [(''href'', BASE_URL ev)] [Text ''Blog'']], [Expr name]]
         \<and> map children (by_class ''body'' page) = [[RawHtml body]]"
    if "get_prop (props_blog p) ''name'' = Inr name"
      and "get_prop (props_blog p) ''body'' = Inr body" for p name body
    using that
    by (simp add: blog_slug_astro_def by_tag_def by_class_def head_of_page_def)
  have first: "length paths = length index
      \<and> map (\<lambda>p. Inr (params_slug p)) paths = map (\<lambda>b. get_prop b ''slug'') index
      \<and> (\<forall>p\<in>set paths. fst (fetchBlog ev nw (params_slug p) []) = Inr (props_blog p))"
    if "fst (getStaticPaths ev nw w) = Inr paths" for paths
  proof -
    from that all have eq: "map ?g index = map Inr paths"
      by (simp add: promise_all_Inr)
    from eq have "length index = length paths"
      by (rule map_eq_imp_length_eq)
    with paths_follow_index [OF eq] show ?thesis by simp
  qed
  have second: "\<exists>paths. fst (getStaticPaths ev nw w) = Inr paths"
    if ok: "\<forall>b\<in>set index. \<exists>slug doc.
              get_prop b ''slug'' = Inr slug \<and> fst (fetchBlog ev nw slug []) = Inr doc"
  proof (cases "promise_all (map ?g index)")
    case (Inl e)
    then have "\<exists>e. Inl e \<in> set (map ?g index)"
      using promise_all_Inl [of "map ?g index"] by blast
    then obtain b e' where b: "b \<in> set index" and failed: "?g b = Inl e'"
      by (auto simp: image_iff) metis
    from ok b obtain slug doc where "get_prop b ''slug'' = Inr slug"
      and "fst (fetchBlog ev nw slug []) = Inr doc" by blast
    then have "?g b = Inr \<lparr>params_slug = slug, props_blog = doc\<rparr>"
      by (simp add: path_entry_Inr)
    with failed show ?thesis by simp
  next
    case (Inr paths)
    with all show ?thesis by simp
  qed
  from first second render show ?thesis by blast
qed

lemmas run_defs =
  fetchAllBlogs_def fetchBlog_def fetch_json_def fetch_def index_items_def
  getR2Url_def getR2BaseUrl_def strip_trailing_slash_def
  store_def ok_def ok_response_def not_found_def site_def
  summary_of_def post_def index_of_def

theorem one_detail_page_per_index_entry_witness:
  "fst (getStaticPaths site two_posts [])
     = Inr [\<lparr>params_slug = JStr ''a'', props_blog = post ''a'' ''A'' ''<p>x</p>''\<rparr>,
            \<lparr>params_slug = JStr ''b'', props_blog = post ''b'' ''B'' ''<p>y</p>''\<rparr>]
   \<and> fst (fetchBlog site two_posts (JStr ''a'') []) = Inr (post ''a'' ''A'' ''<p>x</p>'')
   \<and> fst (fetchBlog site two_posts (JStr ''b'') []) = Inr (post ''b'' ''B'' ''<p>y</p>'')
   \<and> map_sum id (\<lambda>page. map children (by_tag ''title'' page) @ map children (by_class ''body'' page))
         (blog_slug_astro site
            \<lparr>params_slug = JStr ''a'', props_blog = post ''a'' ''A'' ''<p>x</p>''\<rparr>)
       = Inr [[Expr (JStr ''A''), Text '' - Blog''], [RawHtml (JStr ''<p>x</p>'')]]"
proof -
  have ix: "fetchAllBlogs site two_posts []
      = (Inr [summary_of ''a'' ''A'', summary_of ''b'' ''B''],
         [''https://cdn.test/c/blogs/_index.json''])"
    by (simp add: two_posts_def run_defs)
  have each: "\<forall>b\<in>set [summary_of ''a'' ''A'', summary_of ''b'' ''B'']. \<exists>slug doc.
      get_prop b ''slug'' = Inr slug \<and> fst (fetchBlog site two_posts slug []) = Inr doc"
    by (simp add: two_posts_def run_defs)
  from one_detail_page_per_index_entry [OF ix] each
  obtain paths where paths: "fst (getStaticPaths site two_posts []) = Inr paths"
    by blast
  with one_detail_page_per_index_entry [OF ix]
  have len: "length paths = 2"
    and slugs: "map (\<lambda>p. Inr (params_slug p)) paths
        = map (\<lambda>b. get_prop b ''slug'') [summary_of ''a'' ''A'', summary_of ''b'' ''B'']"
    and docs: "\<forall>p\<in>set paths. fst (fetchBlog site two_posts (params_slug p) []) = Inr (props_blog p)"
    by simp_all
  from len obtain p q where pq: "paths = [p, q]"
    by (cases paths; cases "tl paths") auto
  with slugs have s: "params_slug p = JStr ''a''" "params_slug q = JStr ''b''"
    by (simp_all add: summary_of_def)
  have a: "fst (fetchBlog site two_posts (JStr ''a'') []) = Inr (post ''a'' ''A'' ''<p>x</p>'')"
    and b: "fst (fetchBlog site two_posts (JStr ''b'') []) = Inr (post ''b'' ''B'' ''<p>y</p>'')"
    by (simp_all add: two_posts_def run_defs)
  with docs pq s have "props_blog p = post ''a'' ''A'' ''<p>x</p>''"
    "props_blog q = post ''b'' ''B'' ''<p>y</p>''"
    by simp_all
  with s have p: "p = \<lparr>params_slug = JStr ''a'', props_blog = post ''a'' ''A'' ''<p>x</p>''\<rparr>"
    and q: "q = \<lparr>params_slug = JStr ''b'', props_blog = post ''b'' ''B'' ''<p>y</p>''\<rparr>"
    by simp_all
  have fields: "get_prop (props_blog p) ''name'' = Inr (JStr ''A'')
      \<and> get_prop (props_blog p) ''body'' = Inr (JStr ''<p>x</p>'')"
    using p by (simp add: post_def)
  from one_detail_page_per_index_entry [OF ix] paths pq
  have shown: "\<forall>name body. get_prop (props_blog p) ''name'' = Inr name
          \<and> get_prop (props_blog p) ''body'' = Inr body \<longrightarrow>
        (\<exists>page. blog_slug_astro site p = Inr page
           \<and> map children (by_tag ''title'' page) = [[Expr name, Text '' - Blog'']]
           \<and> map children (by_tag ''h1'' page)
               = [[Element ''a'' [(''href'', BASE_URL site)] [Text ''Blog'']], [Expr name]]
           \<and> map children (by_class ''body'' page) = [[RawHtml body]])"
    by simp
  from shown have "get_prop (props_blog p) ''name'' = Inr (JStr ''A'')
          \<and> get_prop (props_blog p) ''body'' = Inr (JStr ''<p>x</p>'') \<longrightarrow>
        (\<exists>page. blog_slug_astro site p = Inr page
           \<and> map children (by_tag ''title'' page) = [[Expr (JStr ''A''), Text '' - Blog'']]
           \<and> map children (by_tag ''h1'' page)
               = [[Element ''a'' [(''href'', BASE_URL site)] [Text ''Blog'']], [Expr (JStr ''A'')]]
           \<and> map children (by_class ''body'' page) = [[RawHtml (JStr ''<p>x</p>'')]])"
    by (elim allE)
  with fields have "\<exists>page. blog_slug_astro site p = Inr page
           \<and> map children (by_tag ''title'' page) = [[Expr (JStr ''A''), Text '' - Blog'']]
           \<and> map children (by_tag ''h1'' page)
               = [[Element ''a'' [(''href'', BASE_URL site)] [Text ''Blog'']], [Expr (JStr ''A'')]]
           \<and> map children (by_class ''body'' page) = [[RawHtml (JStr ''<p>x</p>'')]]"
    by (rule rev_mp)
  then obtain page where "blog_slug_astro site p = Inr page"
    and "map children (by_tag ''title'' page) = [[Expr (JStr ''A''), Text '' - Blog'']]"
    and "map children (by_class ''body'' page) = [[RawHtml (JStr ''<p>x</p>'')]]"
    by (elim exE conjE)
  with p have "map_sum id
      (\<lambda>page. map children (by_tag ''title'' page) @ map children (by_class ''body'' page))
      (blog_slug_astro site
         \<lparr>params_slug = JStr ''a'', props_blog = post ''a'' ''A'' ''<p>x</p>''\<rparr>)
    = Inr [[Expr (JStr ''A''), Text '' - Blog''], [RawHtml (JStr ''<p>x</p>'')]]"
    by simp
  with paths pq p q a b show ?thesis by simp
qed

section \<open>The listing page\<close>










section \<open>Failures\<close>

lemma fetchAllBlogs_not_ok:
  assumes "getR2Url ev ''blogs/_index.json'' = Inr url" and "nw url = Some r" and "\<not> ok r"
  shows "fetchAllBlogs ev nw w
           = (Inl (FetchError ''blog index'' (status r) (statusText r)), w @ [url])"
  using assms by (simp add: fetchAllBlogs_def fetch_json_not_ok)

lemma index_failure_spreads:
  assumes "fetchAllBlogs ev nw w = (Inl e, w1)"
  shows "getStaticPaths ev nw w = (Inl e, w1)"
    and "index_astro ev nw w = (Inl e, w1)"
  using assms by (simp_all add: getStaticPaths_def index_astro_def)

text \<open>
  C6. When the index request is answered with a status outside the success range,
  \<^verbatim>\<open>fetchAllBlogs\<close> fails with the fetch error carrying that status, and so do
  \<^verbatim>\<open>getStaticPaths\<close> and the listing page: neither yields a page. When the index is
  fetched and the record of one of its entries cannot be fetched, \<^verbatim>\<open>getStaticPaths\<close>
  fails as a whole: it returns no path entry, so no detail page is rendered.
\<close>

theorem failed_fetch_aborts_generation:
  "(getR2Url ev ''blogs/_index.json'' = Inr url \<and> nw url = Some r \<and> \<not> ok r \<longrightarrow>
      fetchAllBlogs ev nw w
        = (Inl (FetchError ''blog index'' (status r) (statusText r)), w @ [url])
      \<and> getStaticPaths ev nw w
        = (Inl (FetchError ''blog index'' (status r) (statusText r)), w @ [url])
      \<and> index_astro ev nw w
        = (Inl (FetchError ''blog index'' (status r) (statusText r)), w @ [url]))
   \<and> (fetchAllBlogs ev nw w = (Inr index, w1)
        \<and> (\<exists>b\<in>set index. \<exists>slug e.
              get_prop b ''slug'' = Inr slug \<and> fst (fetchBlog ev nw slug []) = Inl e) \<longrightarrow>
      isl (fst (getStaticPaths ev nw w)))"
proof -
  have first: "fetchAllBlogs ev nw w
        = (Inl (FetchError ''blog index'' (status r) (statusText r)), w @ [url])
      \<and> getStaticPaths ev nw w
        = (Inl (FetchError ''blog index'' (status r) (statusText r)), w @ [url])
      \<and> index_astro ev nw w
        = (Inl (FetchError ''blog index'' (status r) (statusText r)), w @ [url])"
    if "getR2Url ev ''blogs/_index.json'' = Inr url" "nw url = Some r" "\<not> ok r"
    using that fetchAllBlogs_not_ok [of ev url nw r w]
      index_failure_spreads
        [of ev nw w "FetchError ''blog index'' (status r) (statusText r)" "w @ [url]"]
    by simp
  have second: "isl (fst (getStaticPaths ev nw w))"
    if ix: "fetchAllBlogs ev nw w = (Inr index, w1)"
      and b: "b \<in> set index" and slug: "get_prop b ''slug'' = Inr slug"
      and failed: "fst (fetchBlog ev nw slug []) = Inl e" for b slug e
  proof -
    let ?g = "\<lambda>b. fst (path_entry ev nw b [])"
    from slug failed have "?g b = Inl e"
      by (cases "fetchBlog ev nw slug []") (simp add: path_entry_def)
    with b have "Inl e \<in> set (map ?g index)" by force
    then have "\<exists>e'. promise_all (map ?g index) = Inl e'"
      using promise_all_Inl [of "map ?g index"] by blast
    then show ?thesis
      using getStaticPaths_index [OF ix] by auto
  qed
  from first second show ?thesis by blast
qed

theorem failed_fetch_aborts_generation_witness:
  "fetchAllBlogs site (store []) []
     = (Inl (FetchError ''blog index'' 404 ''Not Found''), [''https://cdn.test/c/blogs/_index.json''])
   \<and> getStaticPaths site (store []) []
     = (Inl (FetchError ''blog index'' 404 ''Not Found''), [''https://cdn.test/c/blogs/_index.json''])
   \<and> index_astro site (store []) []
     = (Inl (FetchError ''blog index'' 404 ''Not Found''), [''https://cdn.test/c/blogs/_index.json''])
   \<and> isl (fst (getStaticPaths site
        (store [(''https://cdn.test/c/blogs/_index.json'',
                   index_of 2 [summary_of ''a'' ''A'', summary_of ''b'' ''B'']),
                (''https://cdn.test/c/blogs/a.json'', post ''a'' ''A'' ''<p>x</p>'')]) []))"
proof -
  let ?nw = "store [(''https://cdn.test/c/blogs/_index.json'',
                   index_of 2 [summary_of ''a'' ''A'', summary_of ''b'' ''B'']),
                (''https://cdn.test/c/blogs/a.json'', post ''a'' ''A'' ''<p>x</p>'')]"
  have u: "getR2Url site ''blogs/_index.json'' = Inr ''https://cdn.test/c/blogs/_index.json''"
    by (simp add: run_defs)
  have gone: "store [] ''https://cdn.test/c/blogs/_index.json'' = Some not_found"
    "\<not> ok not_found" "status not_found = 404" "statusText not_found = ''Not Found''"
    by (simp_all add: store_def ok_def not_found_def)
  have ix: "fetchAllBlogs site ?nw []
      = (Inr [summary_of ''a'' ''A'', summary_of ''b'' ''B''],
         [''https://cdn.test/c/blogs/_index.json''])"
    by (simp add: run_defs)
  have b: "\<exists>b\<in>set [summary_of ''a'' ''A'', summary_of ''b'' ''B'']. \<exists>slug e.
      get_prop b ''slug'' = Inr slug \<and> fst (fetchBlog site ?nw slug []) = Inl e"
    by (simp add: run_defs)
  from failed_fetch_aborts_generation
      [of site "''https://cdn.test/c/blogs/_index.json''" "store []" not_found "[]"]
    u gone
  have "fetchAllBlogs site (store []) []
     = (Inl (FetchError ''blog index'' 404 ''Not Found''), [''https://cdn.test/c/blogs/_index.json''])
   \<and> getStaticPaths site (store []) []
     = (Inl (FetchError ''blog index'' 404 ''Not Found''), [''https://cdn.test/c/blogs/_index.json''])
   \<and> index_astro site (store []) []
     = (Inl (FetchError ''blog index'' 404 ''Not Found''), [''https://cdn.test/c/blogs/_index.json''])"
    by simp
  moreover from failed_fetch_aborts_generation
      [of site _ ?nw _ "[]" "[summary_of ''a'' ''A'', summary_of ''b'' ''B'']"
          "[''https://cdn.test/c/blogs/_index.json'']"]
    ix b
  have "isl (fst (getStaticPaths site ?nw []))"
    by blast
  ultimately show ?thesis by simp
qed

section \<open>Links\<close>













end
